theory Spec2Isabelle
  imports Complex_Main "HOL-Library.Sublist"
begin

section \<open>Time and numbers as the bot uses them\<close>

text \<open>
  A \<open>datetime\<close> of the source has microsecond resolution; it is modelled as the number of
  microseconds since 1970-01-01, and a \<open>timedelta\<close> as a number of microseconds.
\<close>

type_synonym datetime = int
type_synonym timedelta = int

text \<open>
  \<open>total_seconds\<close> as the exact quotient. It serves where the handler divides a time span
  once more and truncates the result to whole hours or minutes (lines 45-46, 119, 219,
  260). The time cycle of lines 32-39 is computed in doubles below.
\<close>

definition total_seconds :: "timedelta \<Rightarrow> real" where
  "total_seconds d = real_of_int d / 1000000"

text \<open>\<open>timedelta(hours=n)\<close>.\<close>

definition timedelta_hours :: "int \<Rightarrow> timedelta" where
  "timedelta_hours n = n * 3600 * 1000000"

text \<open>\<open>int(x)\<close> on a float truncates towards zero.\<close>

definition py_int :: "real \<Rightarrow> int" where
  "py_int x = (if 0 \<le> x then \<lfloor>x\<rfloor> else \<lceil>x\<rceil>)"

subsection \<open>Doubles\<close>

text \<open>
  A Python float is an IEEE 754 binary64 number. \<open>double x\<close> is the double nearest to the
  real \<open>x\<close>, ties going to the even significand: 53 significant bits, the smallest
  exponent being -1022. Overflow is left out; a datetime lies between the years 1 and
  9999, so no value of this program exceeds \<open>2 ^ 38\<close>.
\<close>

definition round_half_even :: "real \<Rightarrow> int" where
  "round_half_even x =
     (let f = \<lfloor>x\<rfloor>; r = x - of_int f
      in if r < 1 / 2 then f else if 1 / 2 < r then f + 1 else if even f then f else f + 1)"

definition double :: "real \<Rightarrow> real" where
  "double x =
     (if x = 0 then 0
      else let e = max \<lfloor>log 2 \<bar>x\<bar>\<rfloor> (- 1022); ulp = 2 powi (e - 52)
           in of_int (round_half_even (x / ulp)) * ulp)"

text \<open>
  The remainder of C, which is exact and has the sign of \<open>x\<close>, and \<open>x % y\<close> on floats,
  which takes it and adds \<open>y\<close> when the signs of \<open>y\<close> and of the remainder differ.
\<close>

definition fmod :: "real \<Rightarrow> real \<Rightarrow> real" where
  "fmod x y = x - y * of_int (py_int (x / y))"

definition float_mod :: "real \<Rightarrow> real \<Rightarrow> real" where
  "float_mod x y =
     (let m = fmod x y in if m \<noteq> 0 \<and> ((y < 0) \<noteq> (m < 0)) then double (m + y) else m)"

text \<open>
  \<open>x // y\<close> on floats. The interpreter derives the quotient from the exact remainder and
  corrects its last rounding, so that the result is the floor of the exact quotient of
  the two doubles (as long as that is below \<open>2 ^ 52\<close>).
\<close>

definition float_floordiv :: "real \<Rightarrow> real \<Rightarrow> real" where
  "float_floordiv x y = of_int \<lfloor>x / y\<rfloor>"

text \<open>
  \<open>timedelta(seconds=x)\<close> for a float \<open>x\<close>: the whole seconds are split off exactly, the
  fraction is multiplied by \<open>1e6\<close> in doubles and rounded to a microsecond, ties to even.
\<close>

definition timedelta_seconds :: "real \<Rightarrow> timedelta" where
  "timedelta_seconds x =
     (let whole = py_int x; secondsfrac = x - of_int whole;
          usdouble = double (secondsfrac * 1000000)
      in whole * 1000000 + round_half_even usdouble)"

section \<open>The time cycle (\<open>get_game_time\<close>, lines 32-39)\<close>

definition cycle_duration :: int where
  "cycle_duration = 4 * 3600"

text \<open>
  The argument is the reading of \<open>datetime.utcnow()\<close> on line 33. \<open>total_seconds()\<close> and
  \<open>cycle_duration / 13\<close> divide two integers and round the quotient to a double.
\<close>

definition get_game_time :: "datetime \<Rightarrow> int \<times> bool \<times> timedelta" where
  "get_game_time now =
     (let elapsed_seconds = double (of_int (now - 0) / 1000000);
          game_day =
            py_int (float_mod
              (float_floordiv elapsed_seconds (double (of_int cycle_duration / 13))) 13) + 1;
          is_night = (game_day > 6);
          time_to_next =
            double (of_int cycle_duration - float_mod elapsed_seconds (of_int cycle_duration))
      in (game_day, is_night, timedelta_seconds time_to_next))"

section \<open>The player document\<close>

datatype status = Healthy | Injured

text \<open>
  The document that \<open>start\<close> inserts (lines 52-70). \<open>energy\<close> and \<open>last_energy_update\<close>
  are optional because \<open>update_energy\<close> reads them with \<open>.get\<close> and a default.
\<close>

record user =
  user_id :: int
  username :: string
  acorns :: int
  stars :: int
  squirrel_status :: status
  squirrel_recovery_time :: "datetime option"
  level :: int
  trees :: "string list"
  squirrels :: "string list"
  energy :: "int option"
  last_energy_update :: "datetime option"

section \<open>Energy regeneration (\<open>update_energy\<close>, lines 42-47)\<close>

text \<open>Line 46 as a function of the stored energy and the elapsed hours.\<close>

definition regen :: "int \<Rightarrow> real \<Rightarrow> int" where
  "regen e elapsed_hours = min (e + py_int (elapsed_hours * 2)) 10"

definition update_energy :: "user \<Rightarrow> datetime \<Rightarrow> int" where
  "update_energy user_data now =
     (let last = (case last_energy_update user_data of None \<Rightarrow> now | Some l \<Rightarrow> l);
          elapsed_hours = total_seconds (now - last) / 3600
      in regen (case energy user_data of None \<Rightarrow> 10 | Some e \<Rightarrow> e) elapsed_hours)"

section \<open>The callback handler (\<open>button\<close>, lines 97-272)\<close>

text \<open>
  The handler reads the clock several times; each reading is an input of its own, named
  after the line that takes it.
\<close>

record clock =
  t_energy :: datetime
  t_stamp :: datetime
  t_check :: datetime
  t_remaining :: datetime
  t_game :: datetime
  t_injury :: datetime

text \<open>
  The results of the random calls are inputs too: \<open>acorn_roll\<close> is \<open>random.randint(0, 5)\<close>
  (line 159), \<open>hazard_draws k\<close> the k-th call of \<open>random.random()\<close> in the loop of lines
  167-170, \<open>star_roll\<close> is \<open>random.randint(1, 3)\<close> (line 224).
\<close>

record dice =
  acorn_roll :: int
  hazard_draws :: "nat \<Rightarrow> real"
  star_roll :: int

text \<open>What the handler sends back; the texts themselves are presentation.\<close>

datatype reply =
    StartAgain
  | Resting int
  | Tired
  | AskWhere int
  | Hurt string
  | FoundLevelUp string int int
  | Found string int
  | Daytime int
  | StarOffer int
  | StarCaught
  | StatusReport int int int int int status nat bool int int
  | Help
  | NoReply
  | Fault

text \<open>Update operators of the store, on one document.\<close>

definition inc_energy :: "int \<Rightarrow> user \<Rightarrow> user" where
  "inc_energy n u = u\<lparr>energy := Some ((case energy u of None \<Rightarrow> 0 | Some e \<Rightarrow> e) + n)\<rparr>"

text \<open>The threat table and the loop of lines 161-170, which also counts the draws it takes.\<close>

definition threats :: "(string \<times> real) list" where
  "threats = [(''fox'', 1 / 10), (''eagle'', 5 / 100), (''storm'', 5 / 100)]"

fun roll_threat :: "(string \<times> real) list \<Rightarrow> (nat \<Rightarrow> real) \<Rightarrow> nat \<Rightarrow> string option \<times> nat" where
  "roll_threat [] draw k = (None, k)"
| "roll_threat ((t_name, t_prob) # ts) draw k =
     (if draw k < t_prob then (Some t_name, Suc k) else roll_threat ts draw (Suc k))"

text \<open>\<open>query.data.split('_')[1].capitalize()\<close> (line 171), for ASCII data.\<close>

fun split_on :: "char \<Rightarrow> string \<Rightarrow> string list" where
  "split_on c [] = [[]]"
| "split_on c (x # xs) =
     (if x = c then [] # split_on c xs
      else (case split_on c xs of [] \<Rightarrow> [[x]] | p # ps \<Rightarrow> (x # p) # ps))"

definition upper :: "char \<Rightarrow> char" where
  "upper ch = (let n = (of_char ch :: nat) in if 97 \<le> n \<and> n \<le> 122 then char_of (n - 32) else ch)"

definition lower :: "char \<Rightarrow> char" where
  "lower ch = (let n = (of_char ch :: nat) in if 65 \<le> n \<and> n \<le> 90 then char_of (n + 32) else ch)"

definition capitalize :: "string \<Rightarrow> string" where
  "capitalize s = (case s of [] \<Rightarrow> [] | x # xs \<Rightarrow> upper x # map lower xs)"

text \<open>Lines 116-118: the squirrel is injured and its recovery time has not come.\<close>

definition resting :: "user \<Rightarrow> clock \<Rightarrow> bool" where
  "resting u c =
     (squirrel_status u = Injured \<and>
      (case squirrel_recovery_time u of None \<Rightarrow> False | Some r \<Rightarrow> t_check c < r))"

text \<open>Lines 116-129: reject with the remaining minutes, or heal and go on.\<close>

definition recovery_check :: "user \<Rightarrow> clock \<Rightarrow> reply + user" where
  "recovery_check u c =
     (if squirrel_status u = Injured then
        (case squirrel_recovery_time u of
           Some r \<Rightarrow>
             if t_check c < r
             then Inl (Resting (py_int (total_seconds (r - t_remaining c) / 60)))
             else Inr (u\<lparr>squirrel_status := Healthy, squirrel_recovery_time := None\<rparr>)
         | None \<Rightarrow> Inr (u\<lparr>squirrel_status := Healthy, squirrel_recovery_time := None\<rparr>))
      else Inr u)"

text \<open>Lines 149-215: one exploration.\<close>

definition explore_to :: "user \<Rightarrow> string \<Rightarrow> clock \<Rightarrow> dice \<Rightarrow> user \<times> reply" where
  "explore_to u data c d =
     (case energy u of
        None \<Rightarrow> (u, Fault)
      | Some e \<Rightarrow>
          if e < 1 then (u, Tired)
          else
            let u1 = inc_energy (- 1) u;
                star_bonus = (if stars u > 0 then 2 else 1);
                acorns_found = acorn_roll d * star_bonus;
                threat = fst (roll_threat threats (hazard_draws d) 0)
            in (case split_on (CHR ''_'') data of
                  _ # piece # _ \<Rightarrow>
                    let location = capitalize piece
                    in (case threat of
                          Some t \<Rightarrow>
                            (u1\<lparr>squirrel_status := Injured,
                                squirrel_recovery_time := Some (t_injury c + timedelta_hours 2)\<rparr>,
                             Hurt t)
                        | None \<Rightarrow>
                            let u2 = u1\<lparr>acorns := acorns u1 + acorns_found\<rparr>;
                                new_level = level u2
                            in if acorns u2 \<ge> new_level * 50
                               then (inc_energy 5 (u2\<lparr>level := new_level + 1, stars := stars u2 + 1\<rparr>),
                                     FoundLevelUp location acorns_found (new_level + 1))
                               else (u2, Found location acorns_found))
                | _ \<Rightarrow> (u1, Fault)))"

text \<open>Lines 131-272: the chain of branches on \<open>query.data\<close>.\<close>

definition dispatch :: "user \<Rightarrow> string \<Rightarrow> clock \<Rightarrow> dice \<Rightarrow> user \<times> reply" where
  "dispatch u data c d =
     (case get_game_time (t_game c) of (game_day, is_night, time_to_next) \<Rightarrow>
        if data = ''explore'' then
          (case energy u of
             None \<Rightarrow> (u, Fault)
           | Some e \<Rightarrow> if e < 1 then (u, Tired) else (u, AskWhere e))
        else if prefix ''explore_'' data then explore_to u data c d
        else if data = ''collect_star'' then
          (if \<not> is_night
           then (u, Daytime (py_int (total_seconds time_to_next / 3600)))
           else (u, StarOffer (star_roll d)))
        else if prefix ''star_'' data then (u\<lparr>stars := stars u + 1\<rparr>, StarCaught)
        else if data = ''status'' then
          (case energy u of
             None \<Rightarrow> (u, Fault)
           | Some e \<Rightarrow>
               (u, StatusReport (acorns u) (level u * 50) (stars u) (level u) e
                     (squirrel_status u) (length (trees u)) is_night game_day
                     (py_int (total_seconds time_to_next / 3600))))
        else if data = ''help'' then (u, Help)
        else (u, NoReply))"

text \<open>
  The whole handler: the document found in the store (or none), the callback data, the
  clock and the dice go in; the document as the store holds it afterwards and the reply
  come out. One document stands for both the store's copy and the handler's local
  dictionary: they agree on every field at the moment the handler reads it, since the
  handler alone writes to the document while it runs.
\<close>

definition button :: "user option \<Rightarrow> string \<Rightarrow> clock \<Rightarrow> dice \<Rightarrow> user option \<times> reply" where
  "button found data c d =
     (case found of
        None \<Rightarrow> (None, StartAgain)
      | Some user_data \<Rightarrow>
          let new_energy = update_energy user_data (t_energy c);
              u = user_data\<lparr>energy := Some new_energy, last_energy_update := Some (t_stamp c)\<rparr>
          in (case recovery_check u c of
                Inl r \<Rightarrow> (Some u, r)
              | Inr u' \<Rightarrow> (case dispatch u' data c d of (u'', r) \<Rightarrow> (Some u'', r))))"

section \<open>Notions used to state the properties\<close>

text \<open>The document after lines 108-113, and after the check of lines 116-129 has let it through.\<close>

definition refreshed :: "user \<Rightarrow> clock \<Rightarrow> user" where
  "refreshed u c =
     u\<lparr>energy := Some (update_energy u (t_energy c)), last_energy_update := Some (t_stamp c)\<rparr>"

definition admitted :: "user \<Rightarrow> clock \<Rightarrow> user" where
  "admitted u c =
     (if squirrel_status u = Injured
      then (refreshed u c)\<lparr>squirrel_status := Healthy, squirrel_recovery_time := None\<rparr>
      else refreshed u c)"


text \<open>The document that \<open>start\<close> inserts for a new player (lines 55-67).\<close>

definition new_player :: "int \<Rightarrow> string \<Rightarrow> datetime \<Rightarrow> user" where
  "new_player uid name now =
     \<lparr>user_id = uid, username = name, acorns = 0, stars = 0, squirrel_status = Healthy,
      squirrel_recovery_time = None, level = 1, trees = [''oak_1''],
      squirrels = [''squirrel_1''], energy = Some 10, last_energy_update = Some now\<rparr>"

text \<open>A clock whose readings all fall on one instant, and dice with fixed results.\<close>

definition at_instant :: "datetime \<Rightarrow> clock" where
  "at_instant t =
     \<lparr>t_energy = t, t_stamp = t, t_check = t, t_remaining = t, t_game = t, t_injury = t\<rparr>"

definition fixed_dice :: "int \<Rightarrow> real \<Rightarrow> int \<Rightarrow> dice" where
  "fixed_dice roll draw star = \<lparr>acorn_roll = roll, hazard_draws = (\<lambda>_. draw), star_roll = star\<rparr>"

text \<open>
  A player whose squirrel was injured an hour and a half ago, with 5 energy left then:
  it recovers in half an hour.
\<close>

definition hurt_player :: user where
  "hurt_player =
     (new_player 1 ''ann'' (- 5400000000))
       \<lparr>energy := Some 5, squirrel_status := Injured, squirrel_recovery_time := Some 1800000000\<rparr>"


section \<open>Rounding to doubles\<close>

lemma round_half_even_of_int: "round_half_even (of_int m) = m"
  by (simp add: round_half_even_def)

lemma double_in_binade:
  assumes "2 powi k \<le> \<bar>x\<bar>" "\<bar>x\<bar> < 2 powi (k + 1)" "- 1022 \<le> k"
  shows "double x = of_int (round_half_even (x / 2 powi (k - 52))) * 2 powi (k - 52)"
proof -
  have pos: "0 < \<bar>x\<bar>" using assms(1) by (smt (verit) zero_less_power_int)
  have a: "(2::real) powi k = 2 powr (of_int k)" "(2::real) powi (k + 1) = 2 powr (of_int k + 1)"
    using powr_real_of_int' [of 2 k] powr_real_of_int' [of 2 "k + 1"] by simp_all
  have "2 powr (of_int k) \<le> \<bar>x\<bar>" "\<bar>x\<bar> < 2 powr (of_int k + 1)"
    using assms(1,2) unfolding a by simp_all
  then have "\<lfloor>log 2 \<bar>x\<bar>\<rfloor> = k"
    using pos by (simp add: floor_log_eq_powr_iff)
  then show ?thesis using pos assms(3) by (simp add: double_def Let_def max_def)
qed

lemma double_of_int:
  assumes "\<bar>n\<bar> < 2 ^ 53"
  shows "double (of_int n) = of_int n"
proof (cases "n = 0")
  case True
  then show ?thesis by (simp add: double_def)
next
  case False
  define k where "k = \<lfloor>log 2 \<bar>real_of_int n\<bar>\<rfloor>"
  have n1: "1 \<le> \<bar>real_of_int n\<bar>" using False by (simp flip: of_int_abs add: abs_if)
  have "0 \<le> log 2 \<bar>real_of_int n\<bar>" using n1 by simp
  then have k0: "0 \<le> k" by (simp add: k_def)
  have "real_of_int \<bar>n\<bar> < real_of_int (2 ^ 53)" using assms by (simp only: of_int_less_iff)
  then have "\<bar>real_of_int n\<bar> < 2 ^ 53" by simp
  then have "log 2 \<bar>real_of_int n\<bar> < 53"
    using n1 by (simp add: log_less_iff powr_realpow [symmetric])
  then have k52: "k \<le> 52" by (simp add: k_def floor_le_iff)
  define j where "j = nat (52 - k)"
  have u: "(2::real) powi (k - 52) = 1 / 2 ^ j"
    using k52 by (simp add: power_int_def j_def field_simps)
  have "real_of_int n / (2 powi (k - 52)) = of_int (n * 2 ^ j)"
    by (simp add: u)
  then have "round_half_even (real_of_int n / (2 powi (k - 52))) = n * 2 ^ j"
    by (simp only: round_half_even_of_int)
  then have "of_int (round_half_even (real_of_int n / (2 powi (k - 52)))) * (2::real) powi (k - 52)
      = of_int n"
    by (simp add: u)
  moreover have "max k (- 1022) = k" using k0 by simp
  moreover have "real_of_int n \<noteq> 0" using False by simp
  ultimately show ?thesis unfolding double_def Let_def k_def [symmetric] by (simp only: if_False)
qed

section \<open>Arithmetic of the time cycle\<close>

lemma py_int_of_int: "py_int (of_int k) = k"
  by (simp add: py_int_def)

lemma fmod_of_int: "fmod (of_int k) (of_int m) = of_int (k - m * py_int (of_int k / of_int m))"
  by (simp add: fmod_def)

lemma py_int_quot_nonneg:
  assumes "0 \<le> k" "0 < m"
  shows "py_int (real_of_int k / real_of_int m) = k div m"
proof -
  have "0 \<le> real_of_int k / real_of_int m" using assms by simp
  then show ?thesis by (simp add: py_int_def floor_divide_of_int_eq)
qed

lemma float_mod_nonneg:
  assumes "0 \<le> k" "0 < m"
  shows "float_mod (of_int k) (of_int m) = of_int (k mod m)"
proof -
  have "fmod (of_int k) (of_int m) = of_int (k - m * (k div m))"
    by (simp add: fmod_of_int py_int_quot_nonneg [OF assms])
  also have "k - m * (k div m) = k mod m" by (simp add: minus_mult_div_eq_mod)
  finally have f: "fmod (real_of_int k) (real_of_int m) = of_int (k mod m)" .
  have "0 \<le> k mod m" using assms(2) by simp
  then have "\<not> real_of_int (k mod m) < 0" by simp
  then show ?thesis using assms(2) by (simp add: float_mod_def f Let_def)
qed

lemma float_mod_13: "float_mod (of_int q) 13 = of_int (q mod 13)"
proof (cases "0 \<le> q")
  case True
  then show ?thesis using float_mod_nonneg [of q 13] by simp
next
  case False
  then have neg: "real_of_int q / 13 < 0" by simp
  have "\<lceil>real_of_int q / 13\<rceil> = - \<lfloor>real_of_int (- q) / real_of_int 13\<rfloor>"
    by (simp add: ceiling_def)
  also have "\<dots> = - ((- q) div 13)" by (simp only: floor_divide_of_int_eq)
  finally have c: "py_int (real_of_int q / 13) = - ((- q) div 13)"
    using neg by (simp add: py_int_def)
  have f: "fmod (of_int q) 13 = of_int (q + 13 * ((- q) div 13))"
    by (simp add: fmod_def c)
  show ?thesis
  proof (cases "q mod 13 = 0")
    case True
    then have "(- q) div 13 = - (q div 13)" by (simp add: zdiv_zminus1_eq_if)
    moreover have "q = 13 * (q div 13)" using True by (simp add: mod_0_imp_dvd)
    ultimately have "q + 13 * ((- q) div 13) = 0" by simp
    then show ?thesis using True by (simp add: float_mod_def f)
  next
    case nz: False
    then have "(- q) div 13 = - (q div 13) - 1" by (simp add: zdiv_zminus1_eq_if)
    then have "q + 13 * ((- q) div 13) = (q - 13 * (q div 13)) - 13" by simp
    also have "q - 13 * (q div 13) = q mod 13" by (simp add: minus_mult_div_eq_mod)
    finally have v: "q + 13 * ((- q) div 13) = q mod 13 - 13" .
    have r: "0 \<le> q mod 13" "q mod 13 < 13" by simp_all
    have lt: "real_of_int (q mod 13 - 13) < 0" "real_of_int (q mod 13 - 13) \<noteq> 0"
      using r by simp_all
    have "\<bar>q mod 13\<bar> < 13" using r by simp
    also have "(13::int) < 2 ^ 53" by simp
    finally have "double (of_int (q mod 13)) = of_int (q mod 13)" by (rule double_of_int)
    moreover have "real_of_int (q mod 13 - 13) + 13 = of_int (q mod 13)" by simp
    ultimately have d: "double (real_of_int (q mod 13 - 13) + 13) = of_int (q mod 13)"
      by (simp only:)
    show ?thesis unfolding float_mod_def f v Let_def using lt d by (simp only: if_True simp_thms) simp
  qed
qed



lemma powi_10: "(2::real) powi 10 = 1024" "(2::real) powi 11 = 2048"
  "(2::real) powi (10 - 52) = 1 / 4398046511104"
proof -
  show "(2::real) powi 10 = 1024" "(2::real) powi 11 = 2048" by (simp_all add: power_int_def)
  have "(2::real) powi (- 42) = inverse (2 ^ 42)"
    by (simp add: power_int_def power_one_over inverse_eq_divide)
  then show "(2::real) powi (10 - 52) = 1 / 4398046511104" by (simp add: inverse_eq_divide)
qed

lemma day_length_double:
  "double (of_int cycle_duration / 13) = 1217920572305723 / 1099511627776"
proof -
  have x: "real_of_int cycle_duration / 13 = 14400 / 13" by (simp add: cycle_duration_def)
  have b: "2 powi 10 \<le> \<bar>14400 / 13 :: real\<bar>" "\<bar>14400 / 13 :: real\<bar> < 2 powi (10 + 1)"
    by (simp_all add: powi_10)
  have q: "(14400 / 13 :: real) / 2 powi (10 - 52) = 63331869759897600 / 13"
    by (simp add: powi_10)
  have f: "\<lfloor>63331869759897600 / 13 :: real\<rfloor> = 4871682289222892" by simp
  have r: "round_half_even (63331869759897600 / 13) = 4871682289222892"
    unfolding round_half_even_def Let_def f by simp
  have c: "- 1022 \<le> (10::int)" by simp
  show ?thesis
    unfolding x double_in_binade [OF b c] q r by (simp add: powi_10)
qed

lemma floor_day_length:
  assumes "0 \<le> s" "s < 2 ^ 38"
  shows "\<lfloor>real_of_int s / (1217920572305723 / 1099511627776)\<rfloor> = (13 * s) div 14400"
proof -
  define k where "k = (13 * s) div 14400"
  define r where "r = (13 * s) mod 14400"
  have s: "13 * s = 14400 * k + r" by (simp add: k_def r_def)
  have r: "0 \<le> r" "r < 14400" by (simp_all add: r_def)
  have k: "0 \<le> k" "k < 2 ^ 38" using assms by (simp_all add: k_def)
  have "real_of_int s / (1217920572305723 / 1099511627776)
      = of_int (1099511627776 * s) / of_int 1217920572305723"
    by simp
  then have "\<lfloor>real_of_int s / (1217920572305723 / 1099511627776)\<rfloor>
      = (1099511627776 * s) div 1217920572305723"
    by (simp only: floor_divide_of_int_eq)
  also have "(1099511627776 * s) div 1217920572305723
      = (13 * (1099511627776 * s)) div (13 * 1217920572305723)"
    by simp
  also have "13 * (1099511627776 * s) = 1099511627776 * (13 * s)" by simp
  also have "\<dots> = k * (13 * 1217920572305723) + (k + 1099511627776 * r)"
    unfolding s by simp
  also have "(k * (13 * 1217920572305723) + (k + 1099511627776 * r)) div (13 * 1217920572305723) = k"
  proof -
    have "0 \<le> k + 1099511627776 * r" using k r by simp
    moreover have "k + 1099511627776 * r < 13 * 1217920572305723"
    proof -
      have "1099511627776 * r \<le> 1099511627776 * 14399" using r by simp
      moreover have "k < 274877906944" using k by simp
      ultimately show ?thesis by simp
    qed
    ultimately have "(k + 1099511627776 * r) div (13 * 1217920572305723) = 0" by simp
    then show ?thesis by simp
  qed
  finally show ?thesis by (simp add: k_def)
qed

lemma timedelta_seconds_of_int: "timedelta_seconds (of_int n) = n * 1000000"
  by (simp add: timedelta_seconds_def Let_def py_int_of_int double_def round_half_even_def)

lemma game_time_of_seconds:
  assumes "double (of_int t / 1000000) = of_int s" "0 \<le> s" "s < 2 ^ 38"
  shows "get_game_time t =
     ((13 * s) div 14400 mod 13 + 1, 6 < (13 * s) div 14400 mod 13 + 1,
      (14400 - s mod 14400) * 1000000)"
proof -
  have es: "double (real_of_int (t - 0) / 1000000) = of_int s"
    using assms(1) by simp
  have m: "float_mod (of_int s) (of_int cycle_duration) = of_int (s mod 14400)"
    using float_mod_nonneg [of s 14400] assms(2) by (simp add: cycle_duration_def)
  have "\<bar>14400 - s mod 14400\<bar> \<le> 14400" by simp
  also have "(14400::int) < 2 ^ 53" by simp
  finally have "double (of_int (14400 - s mod 14400)) = of_int (14400 - s mod 14400)"
    by (rule double_of_int)
  then have t: "double (of_int cycle_duration - of_int (s mod 14400)) = of_int (14400 - s mod 14400)"
    by (simp add: cycle_duration_def)
  show ?thesis
    unfolding get_game_time_def Let_def es day_length_double float_floordiv_def
      floor_day_length [OF assms(2,3)] float_mod_13 py_int_of_int m t timedelta_seconds_of_int
    by simp
qed

lemma whole_second_time:
  assumes "0 \<le> s" "s < 2 ^ 38"
  shows "get_game_time (s * 1000000) =
     ((13 * s) div 14400 mod 13 + 1, 6 < (13 * s) div 14400 mod 13 + 1,
      (14400 - s mod 14400) * 1000000)"
proof -
  have "\<bar>s\<bar> < 2 ^ 38" using assms by simp
  also have "(2::int) ^ 38 < 2 ^ 53" by simp
  finally have "double (of_int s) = of_int s" by (rule double_of_int)
  then have "double (of_int (s * 1000000) / 1000000) = of_int s" by simp
  from game_time_of_seconds [OF this assms] show ?thesis .
qed










text \<open>
  In the last microsecond of the year 9999 the seconds round up to a whole cycle: the
  doubles there lie \<open>2 powi (- 15)\<close> apart.
\<close>

lemma powi_37: "(2::real) powi 37 = 137438953472" "(2::real) powi (37 + 1) = 274877906944"
  "(2::real) powi (37 - 52) = 1 / 32768"
proof -
  show "(2::real) powi 37 = 137438953472" "(2::real) powi (37 + 1) = 274877906944"
    by (simp_all add: power_int_def)
  have "(2::real) powi (- 15) = inverse (2 ^ 15)"
    by (simp add: power_int_def power_one_over inverse_eq_divide)
  then show "(2::real) powi (37 - 52) = 1 / 32768" by (simp add: inverse_eq_divide)
qed

lemma double_9999: "double (253402300799999999 / 1000000) = 253402300800"
proof -
  have b: "2 powi 37 \<le> \<bar>253402300799999999 / 1000000 :: real\<bar>"
    "\<bar>253402300799999999 / 1000000 :: real\<bar> < 2 powi (37 + 1)"
    by (simp_all add: powi_37)
  have c: "- 1022 \<le> (37::int)" by simp
  have q: "(253402300799999999 / 1000000 :: real) / 2 powi (37 - 52)
      = 8303486592614399967232 / 1000000"
    by (simp add: powi_37)
  have f: "\<lfloor>8303486592614399967232 / 1000000 :: real\<rfloor> = 8303486592614399" by simp
  have r: "round_half_even (8303486592614399967232 / 1000000) = 8303486592614400"
    unfolding round_half_even_def Let_def f by simp
  show ?thesis
    unfolding double_in_binade [OF b c] q r by (simp add: powi_37)
qed

lemma game_time_9999: "get_game_time 253402300799999999 = (1, False, 14400000000)"
proof -
  have "double (of_int 253402300799999999 / 1000000) = of_int 253402300800"
    unfolding of_int_numeral double_9999 ..
  from game_time_of_seconds [OF this] show ?thesis by simp
qed

section \<open>The recovery check and the dispatcher\<close>

lemma split_on_nonempty: "split_on c s \<noteq> []"
  by (induction s) (auto split: list.splits)

lemma split_on_explore:
  assumes "prefix ''explore_'' data"
  shows "\<exists>piece rest. split_on (CHR ''_'') data = ''explore'' # piece # rest"
proof -
  from assms obtain s where s: "data = ''explore_'' @ s" by (auto simp: prefix_def)
  obtain p ps where p: "split_on (CHR ''_'') s = p # ps"
    using split_on_nonempty [of "CHR ''_''" s] by (cases "split_on (CHR ''_'') s") auto
  show ?thesis by (simp add: s p)
qed

lemma explore_not_menu: "prefix ''explore_'' data \<Longrightarrow> data \<noteq> ''explore''"
  by auto

lemma resting_refreshed: "resting (refreshed u c) c = resting u c"
  by (simp add: resting_def refreshed_def)

lemma check_passes: "\<not> resting u c \<Longrightarrow> recovery_check (refreshed u c) c = Inr (admitted u c)"
  by (auto simp: resting_def recovery_check_def admitted_def refreshed_def split: option.splits)

lemma check_rejects:
  "resting u c \<Longrightarrow> \<exists>r. squirrel_recovery_time u = Some r \<and> t_check c < r \<and>
     recovery_check (refreshed u c) c = Inl (Resting (py_int (total_seconds (r - t_remaining c) / 60)))"
  by (auto simp: resting_def recovery_check_def refreshed_def split: option.splits)

lemma button_admitted:
  "\<not> resting u c \<Longrightarrow>
   button (Some u) data c d = (Some (fst (dispatch (admitted u c) data c d)), snd (dispatch (admitted u c) data c d))"
  using check_passes [of u c]
  by (simp add: button_def Let_def refreshed_def [symmetric] split: prod.splits)

lemma button_resting:
  "resting u c \<Longrightarrow> squirrel_recovery_time u = Some r \<Longrightarrow>
   button (Some u) data c d = (Some (refreshed u c), Resting (py_int (total_seconds (r - t_remaining c) / 60)))"
  using check_rejects [of u c]
  by (auto simp add: button_def Let_def refreshed_def [symmetric])

lemma dispatch_explore:
  "prefix ''explore_'' data \<Longrightarrow> dispatch u data c d = explore_to u data c d"
  using explore_not_menu [of data] by (simp add: dispatch_def split: prod.splits)

lemma energy_admitted: "energy (admitted u c) = Some (update_energy u (t_energy c))"
  by (simp add: admitted_def refreshed_def)


section \<open>The time oracle\<close>






section \<open>Energy regeneration\<close>

lemma py_int_nonneg: "0 \<le> x \<Longrightarrow> py_int x = \<lfloor>x\<rfloor>"
  by (simp add: py_int_def)

text \<open>
  Claim C2, as amended. For elapsed hours \<open>h \<ge> 0\<close> and any stored energy \<open>e\<close>,
  regeneration returns \<open>min(10, e + floor(2 h))\<close>. Regenerating from full energy returns
  10 exactly when \<open>h > -1/2\<close>: \<open>int\<close> truncates towards zero, and an update time at least
  half an hour in the future lowers the energy. \<open>update_energy\<close> is this function of the
  stored energy (10 when absent) and of the hours since the stored update time (the
  present when absent).
\<close>

theorem regen_law:
  "(0 \<le> h \<longrightarrow> regen e h = min 10 (e + \<lfloor>2 * h\<rfloor>))
   \<and> (regen 10 h = 10 \<longleftrightarrow> - (1 / 2) < h)
   \<and> update_energy u now =
       regen (case energy u of None \<Rightarrow> 10 | Some e \<Rightarrow> e)
         (total_seconds (now - (case last_energy_update u of None \<Rightarrow> now | Some l \<Rightarrow> l)) / 3600)"
proof -
  have a: "0 \<le> h \<longrightarrow> regen e h = min 10 (e + \<lfloor>2 * h\<rfloor>)"
    by (simp add: regen_def py_int_def mult.commute min.commute)
  have b: "regen 10 h = 10 \<longleftrightarrow> - (1 / 2) < h"
  proof (cases "0 \<le> h")
    case True
    then have "0 \<le> \<lfloor>h * 2\<rfloor>" by simp
    with True show ?thesis by (simp add: regen_def py_int_def)
  next
    case False
    have "\<lceil>h * 2\<rceil> = 0 \<longleftrightarrow> - 1 < h * 2 \<and> h * 2 \<le> 0"
      by (simp add: ceiling_eq_iff)
    moreover have "\<lceil>h * 2\<rceil> \<le> 0" using False by (simp add: ceiling_le_iff)
    ultimately show ?thesis using False by (auto simp add: regen_def py_int_def)
  qed
  show ?thesis using a b by (simp add: update_energy_def Let_def)
qed

theorem regen_law_witness:
  "(0::real) \<le> 3 / 2 \<and> regen 4 (3 / 2) = 7 \<and> regen 10 (3 / 2) = 10"
  using regen_law [of "3 / 2" 4] regen_law [of "3 / 2" 10] by simp

text \<open>
  The claim as stated fails one hour before the stored update time: full energy drops
  from 10 to 8.
\<close>

theorem regen_full_counterexample:
  "regen 10 (- 1) = 8
   \<and> update_energy (new_player 1 ''ann'' (timedelta_hours 1)) 0 = 8"
  by (simp add: regen_def py_int_def update_energy_def new_player_def timedelta_hours_def
      total_seconds_def)

section \<open>Exploration\<close>

lemma admitted_fields:
  "acorns (admitted u c) = acorns u" "stars (admitted u c) = stars u"
  "level (admitted u c) = level u" "trees (admitted u c) = trees u"
  "squirrels (admitted u c) = squirrels u" "user_id (admitted u c) = user_id u"
  "username (admitted u c) = username u"
  "last_energy_update (admitted u c) = Some (t_stamp c)"
  by (simp_all add: admitted_def refreshed_def)

lemma explore_to_hazard:
  assumes "energy a = Some e" "1 \<le> e" "split_on (CHR ''_'') data = x # piece # rest"
    and "fst (roll_threat threats (hazard_draws d) 0) = Some t"
  shows "explore_to a data c d =
     (a\<lparr>energy := Some (e - 1), squirrel_status := Injured,
        squirrel_recovery_time := Some (t_injury c + timedelta_hours 2)\<rparr>, Hurt t)"
  using assms by (simp add: explore_to_def Let_def inc_energy_def)

lemma explore_to_reward:
  assumes "energy a = Some e" "1 \<le> e" "split_on (CHR ''_'') data = x # piece # rest"
    and "fst (roll_threat threats (hazard_draws d) 0) = None"
  shows "explore_to a data c d =
     (if level a * 50 \<le> acorns a + acorn_roll d * (if 0 < stars a then 2 else 1)
      then (a\<lparr>energy := Some (e - 1 + 5),
              acorns := acorns a + acorn_roll d * (if 0 < stars a then 2 else 1),
              level := level a + 1, stars := stars a + 1\<rparr>,
            FoundLevelUp (capitalize piece) (acorn_roll d * (if 0 < stars a then 2 else 1))
              (level a + 1))
      else (a\<lparr>energy := Some (e - 1),
              acorns := acorns a + acorn_roll d * (if 0 < stars a then 2 else 1)\<rparr>,
            Found (capitalize piece) (acorn_roll d * (if 0 < stars a then 2 else 1))))"
  using assms by (simp add: explore_to_def Let_def inc_energy_def)

lemma button_explore:
  assumes "prefix ''explore_'' data" "\<not> resting u c"
  shows "button (Some u) data c d =
     (Some (fst (explore_to (admitted u c) data c d)), snd (explore_to (admitted u c) data c d))"
  using assms by (simp add: button_admitted dispatch_explore)

lemma cap_north: "capitalize ''north'' = ''North''"
  by code_simp

lemma split_explore_north: "split_on (CHR ''_'') ''explore_north'' = [''explore'', ''north'']"
  by simp

lemma roll_threat_threats:
  "roll_threat threats dr 0 =
     (if dr 0 < 1 / 10 then (Some ''fox'', 1)
      else if dr 1 < 5 / 100 then (Some ''eagle'', 2)
      else if dr 2 < 5 / 100 then (Some ''storm'', 3)
      else (None, 3))"
  by (simp add: threats_def numeral_2_eq_2 numeral_3_eq_3)

text \<open>
  Claim C6. An exploration is accepted when the squirrel is not resting and the energy
  after regeneration is at least 1. If one of the hazard draws of an accepted exploration
  succeeds, the squirrel is injured afterwards, its recovery time is the clock reading of
  line 179 plus two hours, the acorns are unchanged, and the energy is the regenerated
  energy minus 1.
\<close>

theorem hazard_injures_companion:
  assumes "prefix ''explore_'' data" "\<not> resting u c" "1 \<le> update_energy u (t_energy c)"
    and "fst (roll_threat threats (hazard_draws d) 0) = Some t"
  shows "\<exists>u'. button (Some u) data c d = (Some u', Hurt t)
     \<and> squirrel_status u' = Injured
     \<and> squirrel_recovery_time u' = Some (t_injury c + timedelta_hours 2)
     \<and> acorns u' = acorns u
     \<and> energy u' = Some (update_energy u (t_energy c) - 1)"
proof -
  obtain piece rest where s: "split_on (CHR ''_'') data = ''explore'' # piece # rest"
    using split_on_explore [OF assms(1)] by blast
  have "explore_to (admitted u c) data c d =
     ((admitted u c)\<lparr>energy := Some (update_energy u (t_energy c) - 1), squirrel_status := Injured,
        squirrel_recovery_time := Some (t_injury c + timedelta_hours 2)\<rparr>, Hurt t)"
    using explore_to_hazard [OF energy_admitted assms(3) s assms(4)] .
  then show ?thesis
    by (simp add: button_explore [OF assms(1,2)] admitted_fields)
qed

text \<open>
  A new player with a fox that is certain: every draw is 0.
\<close>

theorem hazard_injures_companion_witness:
  "\<not> resting (new_player 1 ''ann'' 0) (at_instant 0)
   \<and> update_energy (new_player 1 ''ann'' 0) (t_energy (at_instant 0)) = 10
   \<and> roll_threat threats (hazard_draws (fixed_dice 3 0 1)) 0 = (Some ''fox'', 1)
   \<and> (\<exists>u'. button (Some (new_player 1 ''ann'' 0)) ''explore_north'' (at_instant 0) (fixed_dice 3 0 1)
           = (Some u', Hurt ''fox'')
         \<and> squirrel_status u' = Injured
         \<and> squirrel_recovery_time u' = Some 7200000000
         \<and> acorns u' = 0
         \<and> energy u' = Some 9)"
proof -
  have p: "prefix ''explore_'' ''explore_north''" by simp
  have r: "\<not> resting (new_player 1 ''ann'' 0) (at_instant 0)"
    by (simp add: resting_def new_player_def)
  have e: "update_energy (new_player 1 ''ann'' 0) (t_energy (at_instant 0)) = 10"
    by (simp add: update_energy_def new_player_def at_instant_def regen_def py_int_def total_seconds_def)
  have h: "roll_threat threats (hazard_draws (fixed_dice 3 0 1)) 0 = (Some ''fox'', 1)"
    by (simp add: roll_threat_threats fixed_dice_def)
  have e1: "1 \<le> update_energy (new_player 1 ''ann'' 0) (t_energy (at_instant 0))"
    by (simp add: e)
  have h1: "fst (roll_threat threats (hazard_draws (fixed_dice 3 0 1)) 0) = Some ''fox''"
    by (simp add: h)
  have a: "acorns (new_player 1 ''ann'' 0) = 0" by (simp add: new_player_def)
  have t: "t_injury (at_instant 0) + timedelta_hours 2 = 7200000000"
    by (simp add: at_instant_def timedelta_hours_def)
  show ?thesis
    using hazard_injures_companion [OF p r e1 h1] r e h
    by (simp add: a t)
qed

lemma new_player_ready:
  "\<not> resting ((new_player i n t)\<lparr>acorns := a, stars := s\<rparr>) c"
  by (simp add: resting_def new_player_def)

lemma new_player_energy:
  "update_energy ((new_player i n t)\<lparr>acorns := a, stars := s\<rparr>) (t_energy (at_instant t)) = 10"
  by (simp add: update_energy_def new_player_def at_instant_def regen_def py_int_def
      total_seconds_def)

lemma no_hazard_dice: "roll_threat threats (hazard_draws (fixed_dice k (1 / 2) j)) 0 = (None, 3)"
  by (simp add: roll_threat_threats fixed_dice_def)

text \<open>
  Claim C7. An accepted exploration without a hazard adds to the acorns exactly the roll
  of \<open>randint(0, 5)\<close> times the star bonus, which is 2 when the player held a star
  before the action and 1 otherwise.
\<close>

theorem acorn_yield:
  assumes "prefix ''explore_'' data" "\<not> resting u c" "1 \<le> update_energy u (t_energy c)"
    and "fst (roll_threat threats (hazard_draws d) 0) = None"
  shows "\<exists>u' r. button (Some u) data c d = (Some u', r)
     \<and> acorns u' = acorns u + acorn_roll d * (if 0 < stars u then 2 else 1)"
proof -
  obtain piece rest where s: "split_on (CHR ''_'') data = ''explore'' # piece # rest"
    using split_on_explore [OF assms(1)] by blast
  show ?thesis
    unfolding button_explore [OF assms(1,2)]
      explore_to_reward [OF energy_admitted assms(3) s assms(4)]
    by (simp add: admitted_fields)
qed

text \<open>
  One star, no hazard, a roll of 3: six acorns more.
\<close>

theorem acorn_yield_witness:
  "\<not> resting ((new_player 1 ''ann'' 0)\<lparr>acorns := 0, stars := 1\<rparr>) (at_instant 0)
   \<and> roll_threat threats (hazard_draws (fixed_dice 3 (1 / 2) 1)) 0 = (None, 3)
   \<and> (\<exists>u' r. button (Some ((new_player 1 ''ann'' 0)\<lparr>acorns := 0, stars := 1\<rparr>)) ''explore_south''
              (at_instant 0) (fixed_dice 3 (1 / 2) 1) = (Some u', r)
         \<and> acorns u' = 6)"
proof -
  have p: "prefix ''explore_'' ''explore_south''" by simp
  have e: "1 \<le> update_energy ((new_player 1 ''ann'' 0)\<lparr>acorns := 0, stars := 1\<rparr>)
              (t_energy (at_instant 0))"
    by (simp only: new_player_energy)
  have h: "fst (roll_threat threats (hazard_draws (fixed_dice 3 (1 / 2) 1)) 0) = None"
    by (simp only: no_hazard_dice fst_conv)
  have v: "acorn_roll (fixed_dice 3 (1 / 2) 1) = 3" by (simp add: fixed_dice_def)
  show ?thesis
    using acorn_yield [OF p new_player_ready e h]
    by (simp add: v new_player_ready no_hazard_dice)
qed

text \<open>
  Claim C3. When an accepted exploration without a hazard brings the acorns to at least
  \<open>level * 50\<close>, the same call raises the level by exactly 1 and the stars by 1, and adds
  5 to the energy left after the cost of the exploration. The level rises by one only,
  however many acorns there are.
\<close>

theorem level_up_once:
  assumes "prefix ''explore_'' data" "\<not> resting u c" "1 \<le> update_energy u (t_energy c)"
    and "fst (roll_threat threats (hazard_draws d) 0) = None"
    and "level u * 50 \<le> acorns u + acorn_roll d * (if 0 < stars u then 2 else 1)"
  shows "\<exists>u' loc. button (Some u) data c d
         = (Some u', FoundLevelUp loc (acorn_roll d * (if 0 < stars u then 2 else 1)) (level u + 1))
     \<and> level u' = level u + 1
     \<and> stars u' = stars u + 1
     \<and> energy u' = Some ((update_energy u (t_energy c) - 1) + 5)"
proof -
  obtain piece rest where s: "split_on (CHR ''_'') data = ''explore'' # piece # rest"
    using split_on_explore [OF assms(1)] by blast
  show ?thesis
    unfolding button_explore [OF assms(1,2)]
      explore_to_reward [OF energy_admitted assms(3) s assms(4)]
    using assms(5) by (simp add: admitted_fields)
qed

text \<open>
  From 49 acorns at level 1 a single acorn gives level 2; so do 500 acorns, which would
  pay for ten levels.
\<close>

theorem level_up_once_witness:
  "(\<exists>u' loc. button (Some ((new_player 1 ''ann'' 0)\<lparr>acorns := 49, stars := 0\<rparr>)) ''explore_north''
              (at_instant 0) (fixed_dice 1 (1 / 2) 1) = (Some u', FoundLevelUp loc 1 2)
         \<and> level u' = 2 \<and> stars u' = 1 \<and> energy u' = Some 14)
   \<and> (\<exists>u' loc. button (Some ((new_player 1 ''ann'' 0)\<lparr>acorns := 500, stars := 0\<rparr>)) ''explore_north''
              (at_instant 0) (fixed_dice 1 (1 / 2) 1) = (Some u', FoundLevelUp loc 1 2)
         \<and> level u' = 2 \<and> stars u' = 1 \<and> energy u' = Some 14)"
proof -
  have p: "prefix ''explore_'' ''explore_north''" by simp
  have e: "1 \<le> update_energy ((new_player 1 ''ann'' 0)\<lparr>acorns := a, stars := 0\<rparr>)
              (t_energy (at_instant 0))" for a
    by (simp only: new_player_energy)
  have h: "fst (roll_threat threats (hazard_draws (fixed_dice 1 (1 / 2) 1)) 0) = None"
    by (simp only: no_hazard_dice fst_conv)
  have v: "acorn_roll (fixed_dice 1 (1 / 2) 1) = 1" by (simp add: fixed_dice_def)
  have l: "level ((new_player 1 ''ann'' 0)\<lparr>acorns := a, stars := 0\<rparr>) = 1" for a
    by (simp add: new_player_def)
  have g1: "level ((new_player 1 ''ann'' 0)\<lparr>acorns := 49, stars := 0\<rparr>) * 50
      \<le> acorns ((new_player 1 ''ann'' 0)\<lparr>acorns := 49, stars := 0\<rparr>)
        + acorn_roll (fixed_dice 1 (1 / 2) 1)
          * (if 0 < stars ((new_player 1 ''ann'' 0)\<lparr>acorns := 49, stars := 0\<rparr>) then 2 else 1)"
    by (simp add: v l)
  have g2: "level ((new_player 1 ''ann'' 0)\<lparr>acorns := 500, stars := 0\<rparr>) * 50
      \<le> acorns ((new_player 1 ''ann'' 0)\<lparr>acorns := 500, stars := 0\<rparr>)
        + acorn_roll (fixed_dice 1 (1 / 2) 1)
          * (if 0 < stars ((new_player 1 ''ann'' 0)\<lparr>acorns := 500, stars := 0\<rparr>) then 2 else 1)"
    by (simp add: v l)
  show ?thesis
    using level_up_once [OF p new_player_ready e h g1] level_up_once [OF p new_player_ready e h g2]
    by (simp add: v l new_player_energy)
qed


lemma admitted_healthy: "squirrel_status (admitted u c) = Healthy"
  by (cases "squirrel_status u") (simp_all add: admitted_def refreshed_def)

text \<open>
  Claim C5. In an accepted exploration the draws are compared in the order fox (below
  1/10), eagle (below 5/100), storm (below 5/100). The first draw that succeeds decides
  the hazard, whatever the later draws would be: that hazard is reported, the squirrel
  of the stored document is injured with a recovery time two hours after the reading of
  line 179, the acorns stay as they were, and the loop takes no further draw (one draw
  for a fox, two for an eagle, three otherwise). When no draw succeeds the squirrel stays
  healthy and the exploration reports the acorns found and adds them, with the level-up
  of lines 194-199 when it is due.
\<close>

theorem hazard_priority:
  assumes "prefix ''explore_'' data" "\<not> resting u c" "1 \<le> update_energy u (t_energy c)"
  shows "(if hazard_draws d 0 < 1 / 10 then
            button (Some u) data c d =
              (Some ((admitted u c)\<lparr>energy := Some (update_energy u (t_energy c) - 1),
                       squirrel_status := Injured,
                       squirrel_recovery_time := Some (t_injury c + timedelta_hours 2)\<rparr>),
               Hurt ''fox'')
          else if hazard_draws d 1 < 5 / 100 then
            button (Some u) data c d =
              (Some ((admitted u c)\<lparr>energy := Some (update_energy u (t_energy c) - 1),
                       squirrel_status := Injured,
                       squirrel_recovery_time := Some (t_injury c + timedelta_hours 2)\<rparr>),
               Hurt ''eagle'')
          else if hazard_draws d 2 < 5 / 100 then
            button (Some u) data c d =
              (Some ((admitted u c)\<lparr>energy := Some (update_energy u (t_energy c) - 1),
                       squirrel_status := Injured,
                       squirrel_recovery_time := Some (t_injury c + timedelta_hours 2)\<rparr>),
               Hurt ''storm'')
          else (\<exists>loc. button (Some u) data c d =
                 (if level u * 50 \<le> acorns u + acorn_roll d * (if 0 < stars u then 2 else 1)
                  then (Some ((admitted u c)\<lparr>energy := Some (update_energy u (t_energy c) - 1 + 5),
                                acorns := acorns u + acorn_roll d * (if 0 < stars u then 2 else 1),
                                level := level u + 1, stars := stars u + 1\<rparr>),
                        FoundLevelUp loc (acorn_roll d * (if 0 < stars u then 2 else 1)) (level u + 1))
                  else (Some ((admitted u c)\<lparr>energy := Some (update_energy u (t_energy c) - 1),
                                acorns := acorns u + acorn_roll d * (if 0 < stars u then 2 else 1)\<rparr>),
                        Found loc (acorn_roll d * (if 0 < stars u then 2 else 1))))))
     \<and> squirrel_status (admitted u c) = Healthy
     \<and> acorns (admitted u c) = acorns u
     \<and> snd (roll_threat threats (hazard_draws d) 0)
         = (if hazard_draws d 0 < 1 / 10 then 1 else if hazard_draws d 1 < 5 / 100 then 2 else 3)"
proof -
  obtain piece rest where s: "split_on (CHR ''_'') data = ''explore'' # piece # rest"
    using split_on_explore [OF assms(1)] by blast
  note hz = explore_to_hazard [OF energy_admitted assms(3) s]
  note rw = explore_to_reward [OF energy_admitted assms(3) s]
  note bt = button_explore [OF assms(1,2)]
  have n: "snd (roll_threat threats (hazard_draws d) 0)
         = (if hazard_draws d 0 < 1 / 10 then 1 else if hazard_draws d 1 < 5 / 100 then 2 else 3)"
    by (simp add: roll_threat_threats)
  consider (fox) "hazard_draws d 0 < 1 / 10"
    | (eagle) "\<not> hazard_draws d 0 < 1 / 10" "hazard_draws d 1 < 5 / 100"
    | (storm) "\<not> hazard_draws d 0 < 1 / 10" "\<not> hazard_draws d 1 < 5 / 100" "hazard_draws d 2 < 5 / 100"
    | (none) "\<not> hazard_draws d 0 < 1 / 10" "\<not> hazard_draws d 1 < 5 / 100" "\<not> hazard_draws d 2 < 5 / 100"
    by blast
  then show ?thesis
  proof cases
    case fox
    then have "fst (roll_threat threats (hazard_draws d) 0) = Some ''fox''"
      by (simp add: roll_threat_threats)
    from hz [OF this] fox n show ?thesis
      by (simp add: bt admitted_healthy admitted_fields)
  next
    case eagle
    then have "fst (roll_threat threats (hazard_draws d) 0) = Some ''eagle''"
      by (simp add: roll_threat_threats)
    from hz [OF this] eagle n show ?thesis
      by (simp add: bt admitted_healthy admitted_fields)
  next
    case storm
    then have "fst (roll_threat threats (hazard_draws d) 0) = Some ''storm''"
      by (simp add: roll_threat_threats)
    from hz [OF this] storm n show ?thesis
      by (simp add: bt admitted_healthy admitted_fields)
  next
    case none
    then have "fst (roll_threat threats (hazard_draws d) 0) = None"
      by (simp add: roll_threat_threats)
    from rw [OF this] none n show ?thesis
      by (simp add: bt admitted_healthy admitted_fields)
  qed
qed

text \<open>
  Every draw is 0, so eagle and storm would succeed as well: the fox is reported and
  applied after a single draw.
\<close>

theorem hazard_priority_witness:
  "hazard_draws (fixed_dice 3 0 1) 0 < 1 / 10 \<and> hazard_draws (fixed_dice 3 0 1) 1 < 5 / 100
   \<and> button (Some ((new_player 1 ''ann'' 0)\<lparr>acorns := 7, stars := 0\<rparr>)) ''explore_underground''
        (at_instant 0) (fixed_dice 3 0 1)
      = (Some ((new_player 1 ''ann'' 0)
                 \<lparr>acorns := 7, stars := 0, energy := Some 9, squirrel_status := Injured,
                    squirrel_recovery_time := Some 7200000000\<rparr>),
         Hurt ''fox'')
   \<and> snd (roll_threat threats (hazard_draws (fixed_dice 3 0 1)) 0) = 1"
proof -
  have p: "prefix ''explore_'' ''explore_underground''" by simp
  have e: "1 \<le> update_energy ((new_player 1 ''ann'' 0)\<lparr>acorns := 7, stars := 0\<rparr>)
              (t_energy (at_instant 0))"
    by (simp only: new_player_energy)
  have v: "hazard_draws (fixed_dice 3 0 1) = (\<lambda>_. 0)" by (simp add: fixed_dice_def)
  have a: "admitted ((new_player 1 ''ann'' 0)\<lparr>acorns := 7, stars := 0\<rparr>) (at_instant 0)
      = (new_player 1 ''ann'' 0)\<lparr>acorns := 7, stars := 0\<rparr>"
    by (simp add: admitted_def refreshed_def new_player_energy)
      (simp add: new_player_def at_instant_def)
  have t: "t_injury (at_instant 0) + timedelta_hours 2 = 7200000000"
    by (simp add: at_instant_def timedelta_hours_def)
  show ?thesis
    using hazard_priority [OF p new_player_ready e, of "fixed_dice 3 0 1"]
    by (simp add: v a t new_player_energy)
qed

section \<open>The injured squirrel and the stars\<close>

lemma star_pick_data:
  assumes "prefix ''star_'' data"
  shows "data \<noteq> ''explore''" "\<not> prefix ''explore_'' data" "data \<noteq> ''collect_star''"
proof -
  from assms obtain s where s: "data = ''star_'' @ s" by (auto simp: prefix_def)
  show "data \<noteq> ''explore''" "\<not> prefix ''explore_'' data" "data \<noteq> ''collect_star''"
    by (simp_all add: s)
qed

lemma dispatch_star_pick:
  "prefix ''star_'' data \<Longrightarrow> dispatch a data c d = (a\<lparr>stars := stars a + 1\<rparr>, StarCaught)"
  using star_pick_data [of data] by (simp add: dispatch_def split: prod.splits)


lemma hurt_energy_0: "update_energy hurt_player (t_energy (at_instant 0)) = 8"
  by (simp add: update_energy_def hurt_player_def new_player_def at_instant_def regen_def
      py_int_def total_seconds_def)

lemma hurt_resting_0: "resting hurt_player (at_instant 0)"
  by (simp add: resting_def hurt_player_def at_instant_def)

lemma hurt_minutes_0:
  "py_int (total_seconds (1800000000 - t_remaining (at_instant 0)) / 60) = 30"
  by (simp add: py_int_def total_seconds_def at_instant_def)

text \<open>
  Claim C8, as amended. For a player whose squirrel is injured: while the clock reading
  of line 118 is before the recovery time, every action is rejected with the remaining
  minutes, and the stored document changes in its energy and its energy time stamp only,
  which lines 108-113 have already written. Once the recovery time is reached (or when
  none is stored) the squirrel is healthy again, the recovery time is cleared, and the
  requested action runs in the same call on that document.
\<close>

theorem injured_check:
  assumes "squirrel_status u = Injured"
  shows "(\<forall>r. squirrel_recovery_time u = Some r \<and> t_check c < r \<longrightarrow>
           button (Some u) data c d =
             (Some (u\<lparr>energy := Some (update_energy u (t_energy c)),
                      last_energy_update := Some (t_stamp c)\<rparr>),
              Resting (py_int (total_seconds (r - t_remaining c) / 60))))
     \<and> (squirrel_recovery_time u = None \<or> (\<exists>r. squirrel_recovery_time u = Some r \<and> r \<le> t_check c) \<longrightarrow>
           button (Some u) data c d =
             (case dispatch (u\<lparr>energy := Some (update_energy u (t_energy c)),
                               last_energy_update := Some (t_stamp c),
                               squirrel_status := Healthy, squirrel_recovery_time := None\<rparr>)
                     data c d of
                (u', r) \<Rightarrow> (Some u', r)))"
proof (intro conjI allI impI)
  fix r
  assume "squirrel_recovery_time u = Some r \<and> t_check c < r"
  with assms have "resting u c" "squirrel_recovery_time u = Some r"
    by (simp_all add: resting_def)
  from button_resting [OF this] show "button (Some u) data c d =
             (Some (u\<lparr>energy := Some (update_energy u (t_energy c)),
                      last_energy_update := Some (t_stamp c)\<rparr>),
              Resting (py_int (total_seconds (r - t_remaining c) / 60)))"
    by (simp add: refreshed_def)
next
  assume "squirrel_recovery_time u = None \<or> (\<exists>r. squirrel_recovery_time u = Some r \<and> r \<le> t_check c)"
  then have "\<not> resting u c" by (auto simp add: resting_def)
  from button_admitted [OF this] assms show "button (Some u) data c d =
             (case dispatch (u\<lparr>energy := Some (update_energy u (t_energy c)),
                               last_energy_update := Some (t_stamp c),
                               squirrel_status := Healthy, squirrel_recovery_time := None\<rparr>)
                     data c d of
                (u', r) \<Rightarrow> (Some u', r))"
    by (simp add: admitted_def refreshed_def split: prod.splits)
qed

text \<open>
  The injured player half an hour before recovery, and at the moment of recovery.
\<close>

theorem injured_check_witness:
  "squirrel_status hurt_player = Injured
   \<and> squirrel_recovery_time hurt_player = Some 1800000000
   \<and> t_check (at_instant 0) < 1800000000
   \<and> button (Some hurt_player) ''explore_north'' (at_instant 0) (fixed_dice 3 0 1)
       = (Some (hurt_player\<lparr>energy := Some 8, last_energy_update := Some 0\<rparr>), Resting 30)
   \<and> 1800000000 \<le> t_check (at_instant 1800000000)
   \<and> button (Some hurt_player) ''star_1'' (at_instant 1800000000) (fixed_dice 3 0 1)
       = (Some (hurt_player\<lparr>energy := Some 9, last_energy_update := Some 1800000000,
                  squirrel_status := Healthy, squirrel_recovery_time := None, stars := 1\<rparr>),
          StarCaught)"
proof -
  have s: "squirrel_status hurt_player = Injured"
    "squirrel_recovery_time hurt_player = Some 1800000000" "stars hurt_player = 0"
    by (simp_all add: hurt_player_def new_player_def)
  have t: "t_check (at_instant 0) < 1800000000" "1800000000 \<le> t_check (at_instant 1800000000)"
    "t_stamp (at_instant 0) = 0" "t_stamp (at_instant 1800000000) = 1800000000"
    by (simp_all add: at_instant_def)
  have e: "update_energy hurt_player (t_energy (at_instant 1800000000)) = 9"
    by (simp add: update_energy_def hurt_player_def new_player_def at_instant_def regen_def
      py_int_def total_seconds_def)
  have p: "prefix ''star_'' ''star_1''" by simp
  show ?thesis
    using injured_check [OF s(1), of "at_instant 0" "''explore_north''" "fixed_dice 3 0 1"]
      injured_check [OF s(1), of "at_instant 1800000000" "''star_1''" "fixed_dice 3 0 1"]
    by (simp add: s t e hurt_energy_0 hurt_minutes_0 dispatch_star_pick [OF p])
qed

text \<open>
  The claim as stated fails: a rejected action of the injured player raises the stored
  energy from 5 to 8 and moves the time stamp.
\<close>

theorem injured_check_counterexample:
  "squirrel_status hurt_player = Injured
   \<and> squirrel_recovery_time hurt_player = Some 1800000000
   \<and> t_check (at_instant 0) < 1800000000
   \<and> energy hurt_player = Some 5
   \<and> last_energy_update hurt_player = Some (- 5400000000)
   \<and> button (Some hurt_player) ''status'' (at_instant 0) (fixed_dice 3 0 1)
       = (Some (hurt_player\<lparr>energy := Some 8, last_energy_update := Some 0\<rparr>), Resting 30)"
proof -
  have s: "squirrel_status hurt_player = Injured"
    "squirrel_recovery_time hurt_player = Some 1800000000"
    "energy hurt_player = Some 5" "last_energy_update hurt_player = Some (- 5400000000)"
    by (simp_all add: hurt_player_def new_player_def)
  have t: "t_check (at_instant 0) < 1800000000" "t_stamp (at_instant 0) = 0"
    by (simp_all add: at_instant_def)
  show ?thesis
    using button_resting [OF hurt_resting_0 s(2), of "''status''" "fixed_dice 3 0 1"]
    by (simp add: s t hurt_energy_0 hurt_minutes_0 refreshed_def)
qed


lemma game_time_0: "get_game_time 0 = (1, False, 14400000000)"
  using whole_second_time [of 0] by simp





text \<open>
  Claim C10. With a healthy squirrel, every callback whose data starts with \<open>star_\<close>
  adds exactly one star, whatever the clock says and whatever was offered: the branch of
  lines 235-246 reads neither the time of day nor any record of an offer.
\<close>

theorem star_pick_unguarded:
  assumes "squirrel_status u = Healthy" "prefix ''star_'' data"
  shows "button (Some u) data c d =
     (Some (u\<lparr>energy := Some (update_energy u (t_energy c)),
              last_energy_update := Some (t_stamp c), stars := stars u + 1\<rparr>),
      StarCaught)"
proof -
  have "\<not> resting u c" using assms(1) by (simp add: resting_def)
  from button_admitted [OF this] assms(1) show ?thesis
    by (simp add: dispatch_star_pick [OF assms(2)] admitted_def refreshed_def)
qed

text \<open>
  By day, for a star that no offer can contain.
\<close>

theorem star_pick_unguarded_witness:
  "squirrel_status (new_player 1 ''ann'' 0) = Healthy
   \<and> \<not> fst (snd (get_game_time (t_game (at_instant 0))))
   \<and> button (Some (new_player 1 ''ann'' 0)) ''star_9'' (at_instant 0) (fixed_dice 3 0 1)
       = (Some ((new_player 1 ''ann'' 0)\<lparr>stars := 1\<rparr>), StarCaught)"
proof -
  have s: "squirrel_status (new_player 1 ''ann'' 0) = Healthy" by (simp add: new_player_def)
  have p: "prefix ''star_'' ''star_9''" by simp
  have g: "\<not> fst (snd (get_game_time (t_game (at_instant 0))))"
    by (simp add: at_instant_def game_time_0)
  have e: "update_energy (new_player 1 ''ann'' 0) (t_energy (at_instant 0)) = 10"
    by (simp add: update_energy_def new_player_def at_instant_def regen_def py_int_def
      total_seconds_def)
  show ?thesis
    using star_pick_unguarded [OF s p, of "at_instant 0" "fixed_dice 3 0 1"] g
    by (simp add: s e) (simp add: new_player_def at_instant_def)
qed

section \<open>The range of the energy\<close>

text \<open>
  Claim C1 says that the energy lies between 0 and 10 after every operation, the reward
  of a level-up included. The handler breaks it at the level-up: \<open>update_energy\<close> caps
  the energy at 10, the increment of line 198 does not, and a player with full energy
  and 49 acorns who finds one acorn is stored with 14 energy.
\<close>

theorem level_up_energy_over_cap:
  "energy ((new_player 1 ''ann'' 0)\<lparr>acorns := 49, stars := 0\<rparr>) = Some 10
   \<and> snd (button (Some ((new_player 1 ''ann'' 0)\<lparr>acorns := 49, stars := 0\<rparr>)) ''explore_north''
          (at_instant 0) (fixed_dice 1 (1 / 2) 1)) = FoundLevelUp ''North'' 1 2
   \<and> map_option energy
        (fst (button (Some ((new_player 1 ''ann'' 0)\<lparr>acorns := 49, stars := 0\<rparr>)) ''explore_north''
          (at_instant 0) (fixed_dice 1 (1 / 2) 1))) = Some (Some 14)"
proof -
  have p: "prefix ''explore_'' ''explore_north''" by simp
  have e: "1 \<le> update_energy ((new_player 1 ''ann'' 0)\<lparr>acorns := 49, stars := 0\<rparr>)
              (t_energy (at_instant 0))"
    by (simp only: new_player_energy)
  have h: "fst (roll_threat threats (hazard_draws (fixed_dice 1 (1 / 2) 1)) 0) = None"
    by (simp only: no_hazard_dice fst_conv)
  have v: "acorn_roll (fixed_dice 1 (1 / 2) 1) = 1" by (simp add: fixed_dice_def)
  have n: "energy ((new_player 1 ''ann'' 0)\<lparr>acorns := 49, stars := 0\<rparr>) = Some 10"
    by (simp add: new_player_def)
  have f: "level ((new_player 1 ''ann'' 0)\<lparr>acorns := 49, stars := 0\<rparr>) = 1"
    "acorns ((new_player 1 ''ann'' 0)\<lparr>acorns := 49, stars := 0\<rparr>) = 49"
    "stars ((new_player 1 ''ann'' 0)\<lparr>acorns := 49, stars := 0\<rparr>) = 0"
    by (simp_all add: new_player_def)
  show ?thesis
    unfolding button_explore [OF p new_player_ready]
      explore_to_reward [OF energy_admitted e split_explore_north h]
    by (simp add: admitted_fields v n f new_player_energy cap_north)
qed

end
